theory Spec2Isabelle
  imports Main
begin

section \<open>Identifiers, sentinels and failures\<close>

text \<open>
  Node and edge identifiers are unsigned machine integers that the masked view only
  compares, stores and passes on; it never does arithmetic on them, so they are modelled
  as natural numbers. The one place where a wider value is narrowed is the result of
  \<open>std::count_if\<close> in \<open>GetOutDegree\<close>, which is returned as \<open>unsigned\<close>; that narrowing is
  written out in \<open>to_unsigned\<close>.
\<close>

type_synonym NodeID = nat
type_synonym EdgeID = nat
type_synonym EdgeWeight = int

definition to_unsigned :: "nat \<Rightarrow> nat" where
  "to_unsigned k = k mod 4294967296"

text \<open>
  The sentinels \<open>SPECIAL_NODEID\<close>, \<open>SPECIAL_EDGEID\<close> and \<open>INVALID_EDGE_WEIGHT\<close> are declared in a
  header that is not part of the sources at hand. Their values are therefore parameters of
  every operation that mentions them.
\<close>

record typedefs =
  SPECIAL_NODEID :: NodeID
  SPECIAL_EDGEID :: EdgeID
  INVALID_EDGE_WEIGHT :: EdgeWeight

text \<open>
  \<open>BOOST_ASSERT\<close> is a checked precondition: a failing assertion ends the call with
  \<open>AssertionFailed\<close>. An unchecked read of the filter vector beyond its size has no defined
  result in the source; the model ends the call with \<open>OutOfRange\<close> there.
\<close>

datatype error = AssertionFailed | OutOfRange

section \<open>The underlying adjacency store\<close>

text \<open>
  \<open>util::StaticGraph\<close> and \<open>util::DynamicGraph\<close> are used by the masked view only through
  five observers. The store is a parameter of the development: a record of what these
  observers answer.
\<close>

record 'd Graph =
  Graph_GetNumberOfNodes :: nat
  Graph_GetNumberOfEdges :: nat
  Graph_GetAdjacentEdgeRange :: "NodeID \<Rightarrow> EdgeID list"
  Graph_GetTarget :: "EdgeID \<Rightarrow> NodeID"
  Graph_GetEdgeData :: "EdgeID \<Rightarrow> 'd"

text \<open>
  \<open>FindSmallestEdge\<close> reads \<open>data.weight\<close>, so it needs an edge payload with a
  \<open>weight\<close> member; any extension of the following record will do.
\<close>

record EdgeData =
  weight :: EdgeWeight

section \<open>Masked view over a static store\<close>

record 'd StaticFilteredGraph =
  graph :: "'d Graph"
  edge_filter :: "bool list"

text \<open>The read \<open>edge_filter[e]\<close>.\<close>

definition edge_filter_at :: "'d StaticFilteredGraph \<Rightarrow> EdgeID \<Rightarrow> error + bool" where
  "edge_filter_at v e =
     (if e < length (edge_filter v) then Inr (edge_filter v ! e) else Inl OutOfRange)"

definition GetNumberOfNodes_static :: "'d StaticFilteredGraph \<Rightarrow> nat" where
  "GetNumberOfNodes_static v = Graph_GetNumberOfNodes (graph v)"

definition GetNumberOfEdges_static :: "'d StaticFilteredGraph \<Rightarrow> nat" where
  "GetNumberOfEdges_static v = Graph_GetNumberOfEdges (graph v)"

text \<open>\<open>std::count_if\<close> with a predicate that may fail; it visits every element in order.\<close>

fun count_if :: "('a \<Rightarrow> error + bool) \<Rightarrow> 'a list \<Rightarrow> error + nat" where
  "count_if p [] = Inr 0"
| "count_if p (x # xs) =
     (case p x of
        Inl err \<Rightarrow> Inl err
      | Inr b \<Rightarrow>
          (case count_if p xs of
             Inl err \<Rightarrow> Inl err
           | Inr k \<Rightarrow> Inr (if b then Suc k else k)))"

definition GetOutDegree_static :: "'d StaticFilteredGraph \<Rightarrow> NodeID \<Rightarrow> error + nat" where
  "GetOutDegree_static v n =
     (case count_if (edge_filter_at v) (Graph_GetAdjacentEdgeRange (graph v) n) of
        Inl err \<Rightarrow> Inl err
      | Inr k \<Rightarrow> Inr (to_unsigned k))"

definition GetTarget_static :: "'d StaticFilteredGraph \<Rightarrow> EdgeID \<Rightarrow> error + NodeID" where
  "GetTarget_static v e =
     (case edge_filter_at v e of
        Inl err \<Rightarrow> Inl err
      | Inr b \<Rightarrow> if b then Inr (Graph_GetTarget (graph v) e) else Inl AssertionFailed)"

definition GetEdgeData_static :: "'d StaticFilteredGraph \<Rightarrow> EdgeID \<Rightarrow> error + 'd" where
  "GetEdgeData_static v e =
     (case edge_filter_at v e of
        Inl err \<Rightarrow> Inl err
      | Inr b \<Rightarrow> if b then Inr (Graph_GetEdgeData (graph v) e) else Inl AssertionFailed)"

text \<open>
  The sequence that a complete traversal of the lazily filtered range yields
  (\<open>boost::adaptors::filtered\<close>): the filter bit of every edge of the range is read.
\<close>

fun filtered :: "('a \<Rightarrow> error + bool) \<Rightarrow> 'a list \<Rightarrow> error + 'a list" where
  "filtered p [] = Inr []"
| "filtered p (x # xs) =
     (case p x of
        Inl err \<Rightarrow> Inl err
      | Inr b \<Rightarrow>
          (case filtered p xs of
             Inl err \<Rightarrow> Inl err
           | Inr ys \<Rightarrow> Inr (if b then x # ys else ys)))"

definition GetAdjacentEdgeRange_static ::
  "'d StaticFilteredGraph \<Rightarrow> NodeID \<Rightarrow> error + EdgeID list" where
  "GetAdjacentEdgeRange_static v n =
     filtered (edge_filter_at v) (Graph_GetAdjacentEdgeRange (graph v) n)"

text \<open>
  The loop of \<open>FindEdge\<close> over the filtered range. The range is lazy: the filter bit of an
  edge is read when the iteration reaches it, and the early \<open>return\<close> leaves the rest of
  the range unread.

  The body compares \<open>to\<close> with \<open>GetTarge(edge)\<close>. Nothing declares a \<open>GetTarge\<close>, so the
  member function does not instantiate as it is written. The name is a parameter of the
  model, here and in the two functions that call \<open>FindEdge\<close>; it may fail, as any call may.
\<close>

fun FindEdge_loop_static ::
  "typedefs \<Rightarrow> (EdgeID \<Rightarrow> error + NodeID) \<Rightarrow> 'd StaticFilteredGraph \<Rightarrow> NodeID \<Rightarrow>
   EdgeID list \<Rightarrow> error + EdgeID" where
  "FindEdge_loop_static td GetTarge v to [] = Inr (SPECIAL_EDGEID td)"
| "FindEdge_loop_static td GetTarge v to (edge # rest) =
     (case edge_filter_at v edge of
        Inl err \<Rightarrow> Inl err
      | Inr b \<Rightarrow>
          if b then
            (case GetTarge edge of
               Inl err \<Rightarrow> Inl err
             | Inr t \<Rightarrow>
                 if to = t then Inr edge else FindEdge_loop_static td GetTarge v to rest)
          else FindEdge_loop_static td GetTarge v to rest)"

definition FindEdge_static ::
  "typedefs \<Rightarrow> (EdgeID \<Rightarrow> error + NodeID) \<Rightarrow> 'd StaticFilteredGraph \<Rightarrow> NodeID \<Rightarrow>
   NodeID \<Rightarrow> error + EdgeID" where
  "FindEdge_static td GetTarge v from to =
     FindEdge_loop_static td GetTarge v to (Graph_GetAdjacentEdgeRange (graph v) from)"

text \<open>
  The loop of \<open>FindSmallestEdge\<close>; the pair is \<open>(smallest_edge, smallest_weight)\<close>.
\<close>

fun FindSmallestEdge_loop_static ::
  "'a EdgeData_scheme StaticFilteredGraph \<Rightarrow> NodeID \<Rightarrow> ('a EdgeData_scheme \<Rightarrow> bool) \<Rightarrow>
   EdgeID \<times> EdgeWeight \<Rightarrow> EdgeID list \<Rightarrow> error + EdgeID" where
  "FindSmallestEdge_loop_static v to filter_function (smallest_edge, smallest_weight) [] =
     Inr smallest_edge"
| "FindSmallestEdge_loop_static v to filter_function (smallest_edge, smallest_weight)
     (edge # rest) =
     (case edge_filter_at v edge of
        Inl err \<Rightarrow> Inl err
      | Inr b \<Rightarrow>
          if b then
            (case GetTarget_static v edge of
               Inl err \<Rightarrow> Inl err
             | Inr target \<Rightarrow>
                 (case GetEdgeData_static v edge of
                    Inl err \<Rightarrow> Inl err
                  | Inr d \<Rightarrow>
                      if target = to \<and> weight d < smallest_weight \<and> filter_function d
                      then FindSmallestEdge_loop_static v to filter_function
                             (edge, weight d) rest
                      else FindSmallestEdge_loop_static v to filter_function
                             (smallest_edge, smallest_weight) rest))
          else FindSmallestEdge_loop_static v to filter_function
                 (smallest_edge, smallest_weight) rest)"

definition FindSmallestEdge_static ::
  "typedefs \<Rightarrow> 'a EdgeData_scheme StaticFilteredGraph \<Rightarrow> NodeID \<Rightarrow> NodeID \<Rightarrow>
   ('a EdgeData_scheme \<Rightarrow> bool) \<Rightarrow> error + EdgeID" where
  "FindSmallestEdge_static td v from to filter_function =
     FindSmallestEdge_loop_static v to filter_function
       (SPECIAL_EDGEID td, INVALID_EDGE_WEIGHT td)
       (Graph_GetAdjacentEdgeRange (graph v) from)"

definition FindEdgeInEitherDirection_static ::
  "typedefs \<Rightarrow> (EdgeID \<Rightarrow> error + NodeID) \<Rightarrow> 'd StaticFilteredGraph \<Rightarrow> NodeID \<Rightarrow>
   NodeID \<Rightarrow> error + EdgeID" where
  "FindEdgeInEitherDirection_static td GetTarge v from to =
     (case FindEdge_static td GetTarge v from to of
        Inl err \<Rightarrow> Inl err
      | Inr tmp \<Rightarrow>
          if SPECIAL_NODEID td \<noteq> tmp then Inr tmp
          else FindEdge_static td GetTarge v to from)"


text \<open>
  The constructor that takes the filter vector; its body is the size assertion. Both
  constructors read the edge count from their parameter \<open>graph\<close> after it has been moved
  into the member of the same name; a store is a value here, and the count that a
  moved-from store reports is taken to be the count it had.
\<close>

definition FilteredGraphImpl_static ::
  "'d Graph \<Rightarrow> bool list \<Rightarrow> error + 'd StaticFilteredGraph" where
  "FilteredGraphImpl_static g edge_filter' =
     (if length edge_filter' = Graph_GetNumberOfEdges g
      then Inr \<lparr>graph = g, edge_filter = edge_filter'\<rparr>
      else Inl AssertionFailed)"

text \<open>
  The constructor that takes a predicate on edge ids: the vector is created with one
  (cleared) bit per edge, and \<open>std::transform\<close> then writes \<open>filter(i)\<close> to position \<open>i\<close>
  for every \<open>i\<close> of \<open>irange(0, GetNumberOfEdges())\<close>.
\<close>

definition transform_irange :: "nat \<Rightarrow> (EdgeID \<Rightarrow> bool) \<Rightarrow> bool list \<Rightarrow> bool list" where
  "transform_irange m filter_function out =
     fold (\<lambda>i acc. acc[i := filter_function i]) [0..<m] out"

definition FilteredGraphImpl_static_pred ::
  "'d Graph \<Rightarrow> (EdgeID \<Rightarrow> bool) \<Rightarrow> 'd StaticFilteredGraph" where
  "FilteredGraphImpl_static_pred g filter_function =
     \<lparr>graph = g,
      edge_filter =
        transform_irange (Graph_GetNumberOfEdges g) filter_function
          (replicate (Graph_GetNumberOfEdges g) False)\<rparr>"

text \<open>
  \<open>Renumber\<close> hands the permutation to the store and does nothing else (the permutation
  of the filter is commented out in the source). The store's own \<open>Renumber\<close> is not part
  of the sources at hand and is the parameter \<open>graph_Renumber\<close>.
\<close>

definition Renumber_static ::
  "(NodeID list \<Rightarrow> 'd Graph \<Rightarrow> 'd Graph) \<Rightarrow> NodeID list \<Rightarrow>
   'd StaticFilteredGraph \<Rightarrow> 'd StaticFilteredGraph" where
  "Renumber_static graph_Renumber old_to_new_node v =
     v\<lparr>graph := graph_Renumber old_to_new_node (graph v)\<rparr>"

section \<open>Masked view over a dynamic store\<close>

text \<open>
  The dynamic view keeps a filter bit inside the edge record, next to the payload. The
  bit-field member \<open>filter\<close> of \<open>EdgeDataWithFilter\<close> is called \<open>filter_bit\<close> here, and the
  view's only member \<open>graph\<close> is called \<open>dgraph\<close>, because the plain names are taken.
\<close>

record 'd EdgeDataWithFilter =
  data :: 'd
  filter_bit :: bool

record 'd DynamicFilteredGraph =
  dgraph :: "'d EdgeDataWithFilter Graph"

definition GetNumberOfNodes_dynamic :: "'d DynamicFilteredGraph \<Rightarrow> nat" where
  "GetNumberOfNodes_dynamic w = Graph_GetNumberOfNodes (dgraph w)"

definition GetNumberOfEdges_dynamic :: "'d DynamicFilteredGraph \<Rightarrow> nat" where
  "GetNumberOfEdges_dynamic w = Graph_GetNumberOfEdges (dgraph w)"

text \<open>
  The accessors assert \<open>edge_filter[e]\<close>, but the dynamic class has no member
  \<open>edge_filter\<close>: its only member is the store. With assertions compiled in the class is
  ill-formed, and with assertions compiled out nothing is checked. No build of the class
  fails on a masked edge, so the accessors are what is left of them: they return what
  the store holds, \<open>GetEdgeData\<close> the payload inside the record.
\<close>

definition GetTarget_dynamic :: "'d DynamicFilteredGraph \<Rightarrow> EdgeID \<Rightarrow> NodeID" where
  "GetTarget_dynamic w e = Graph_GetTarget (dgraph w) e"

definition GetEdgeData_dynamic :: "'d DynamicFilteredGraph \<Rightarrow> EdgeID \<Rightarrow> 'd" where
  "GetEdgeData_dynamic w e = data (Graph_GetEdgeData (dgraph w) e)"

text \<open>
  The predicate of the filtered range is \<open>GetEdgeData(edge).filter\<close>, and \<open>GetEdgeData\<close>
  there is the view's own accessor, which returns the payload. The range therefore keeps
  the edges whose payload has its own member \<open>filter\<close> set, and it instantiates only for
  a payload type that has such a member. That member is the parameter \<open>payload_filter\<close>.
  The bit of the record, which the constructor writes, is not read.
\<close>

definition GetAdjacentEdgeRange_dynamic ::
  "('d \<Rightarrow> bool) \<Rightarrow> 'd DynamicFilteredGraph \<Rightarrow> NodeID \<Rightarrow> EdgeID list" where
  "GetAdjacentEdgeRange_dynamic payload_filter w n =
     filter (\<lambda>edge. payload_filter (GetEdgeData_dynamic w edge))
       (Graph_GetAdjacentEdgeRange (dgraph w) n)"

text \<open>
  \<open>FindEdge\<close> and its two callers have the bodies of the static class, \<open>GetTarge\<close>
  included.
\<close>

fun FindEdge_loop_dynamic ::
  "typedefs \<Rightarrow> (EdgeID \<Rightarrow> error + NodeID) \<Rightarrow> NodeID \<Rightarrow> EdgeID list \<Rightarrow> error + EdgeID" where
  "FindEdge_loop_dynamic td GetTarge to [] = Inr (SPECIAL_EDGEID td)"
| "FindEdge_loop_dynamic td GetTarge to (edge # rest) =
     (case GetTarge edge of
        Inl err \<Rightarrow> Inl err
      | Inr t \<Rightarrow> if to = t then Inr edge else FindEdge_loop_dynamic td GetTarge to rest)"

definition FindEdge_dynamic ::
  "typedefs \<Rightarrow> ('d \<Rightarrow> bool) \<Rightarrow> (EdgeID \<Rightarrow> error + NodeID) \<Rightarrow>
   'd DynamicFilteredGraph \<Rightarrow> NodeID \<Rightarrow> NodeID \<Rightarrow> error + EdgeID" where
  "FindEdge_dynamic td payload_filter GetTarge w from to =
     FindEdge_loop_dynamic td GetTarge to (GetAdjacentEdgeRange_dynamic payload_filter w from)"

definition FindEdgeInEitherDirection_dynamic ::
  "typedefs \<Rightarrow> ('d \<Rightarrow> bool) \<Rightarrow> (EdgeID \<Rightarrow> error + NodeID) \<Rightarrow>
   'd DynamicFilteredGraph \<Rightarrow> NodeID \<Rightarrow> NodeID \<Rightarrow> error + EdgeID" where
  "FindEdgeInEitherDirection_dynamic td payload_filter GetTarge w from to =
     (case FindEdge_dynamic td payload_filter GetTarge w from to of
        Inl err \<Rightarrow> Inl err
      | Inr tmp \<Rightarrow>
          if SPECIAL_NODEID td \<noteq> tmp then Inr tmp
          else FindEdge_dynamic td payload_filter GetTarge w to from)"


text \<open>
  Modelled from the spec: \<open>DynamicGraph::Transform\<close> is not part of the sources at hand.
  The store keeps its nodes, its adjacency and its targets; every edge record is rebuilt
  by the converting constructor \<open>EdgeDataWithFilter(data)\<close>, which clears the filter bit.
\<close>

definition Transform :: "'d Graph \<Rightarrow> 'd EdgeDataWithFilter Graph" where
  "Transform g =
     \<lparr>Graph_GetNumberOfNodes = Graph_GetNumberOfNodes g,
      Graph_GetNumberOfEdges = Graph_GetNumberOfEdges g,
      Graph_GetAdjacentEdgeRange = Graph_GetAdjacentEdgeRange g,
      Graph_GetTarget = Graph_GetTarget g,
      Graph_GetEdgeData = (\<lambda>e. \<lparr>data = Graph_GetEdgeData g e, filter_bit = False\<rparr>)\<rparr>"

text \<open>
  The body of the inner loop of the constructor: the filter bit of \<open>edge\<close> is overwritten
  in place with \<open>valid_start && filter(GetTarget(edge))\<close>.
\<close>

definition set_edge_filter ::
  "(NodeID \<Rightarrow> bool) \<Rightarrow> bool \<Rightarrow> EdgeID \<Rightarrow> 'd EdgeDataWithFilter Graph \<Rightarrow>
   'd EdgeDataWithFilter Graph" where
  "set_edge_filter filter_function valid_start edge g =
     g\<lparr>Graph_GetEdgeData :=
         (Graph_GetEdgeData g)
           (edge := (Graph_GetEdgeData g edge)
              \<lparr>filter_bit := valid_start \<and> filter_function (Graph_GetTarget g edge)\<rparr>)\<rparr>"

text \<open>The body of the outer loop: one node and all edges of its adjacency range.\<close>

definition set_node_filter ::
  "(NodeID \<Rightarrow> bool) \<Rightarrow> NodeID \<Rightarrow> 'd EdgeDataWithFilter Graph \<Rightarrow> 'd EdgeDataWithFilter Graph" where
  "set_node_filter filter_function node g =
     fold (set_edge_filter filter_function (filter_function node))
       (Graph_GetAdjacentEdgeRange g node) g"

definition FilteredGraphImpl_dynamic ::
  "'d Graph \<Rightarrow> (NodeID \<Rightarrow> bool) \<Rightarrow> 'd DynamicFilteredGraph" where
  "FilteredGraphImpl_dynamic graph' filter_function =
     \<lparr>dgraph =
        fold (set_node_filter filter_function)
          [0..<Graph_GetNumberOfNodes (Transform graph')] (Transform graph')\<rparr>"

definition Renumber_dynamic ::
  "(NodeID list \<Rightarrow> 'd EdgeDataWithFilter Graph \<Rightarrow> 'd EdgeDataWithFilter Graph) \<Rightarrow>
   NodeID list \<Rightarrow> 'd DynamicFilteredGraph \<Rightarrow> 'd DynamicFilteredGraph" where
  "Renumber_dynamic graph_Renumber old_to_new_node w =
     w\<lparr>dgraph := graph_Renumber old_to_new_node (dgraph w)\<rparr>"


section \<open>Well-formed views and stores\<close>

text \<open>
  A static view is in a valid state when its filter has one bit per edge of the store and
  the adjacency range of every node of the store holds edge ids of the store only.
\<close>

definition valid_static :: "'d StaticFilteredGraph \<Rightarrow> bool" where
  "valid_static v \<longleftrightarrow>
     length (edge_filter v) = Graph_GetNumberOfEdges (graph v) \<and>
     (\<forall>n < Graph_GetNumberOfNodes (graph v).
        \<forall>e \<in> set (Graph_GetAdjacentEdgeRange (graph v) n).
          e < Graph_GetNumberOfEdges (graph v))"

text \<open>The adjacency ranges of different nodes share no edge id.\<close>

definition ranges_disjoint :: "'d Graph \<Rightarrow> bool" where
  "ranges_disjoint g \<longleftrightarrow>
     (\<forall>s < Graph_GetNumberOfNodes g. \<forall>n < Graph_GetNumberOfNodes g.
        s \<noteq> n \<longrightarrow>
          set (Graph_GetAdjacentEdgeRange g s) \<inter> set (Graph_GetAdjacentEdgeRange g n) = {})"

text \<open>The edge count of the store is the number of entries of its adjacency ranges.\<close>

definition edges_counted :: "'d Graph \<Rightarrow> bool" where
  "edges_counted g \<longleftrightarrow>
     sum_list (map (\<lambda>n. length (Graph_GetAdjacentEdgeRange g n))
       [0..<Graph_GetNumberOfNodes g]) = Graph_GetNumberOfEdges g"


text \<open>
  The edges that \<open>FindSmallestEdge\<close> of the static view chooses among: the unmasked
  edges of \<open>from\<close> with target \<open>to\<close> whose payload satisfies the auxiliary predicate.
\<close>

definition candidates_static ::
  "'d StaticFilteredGraph \<Rightarrow> NodeID \<Rightarrow> NodeID \<Rightarrow> ('d \<Rightarrow> bool) \<Rightarrow> EdgeID list" where
  "candidates_static v from to filter_function =
     filter (\<lambda>e. edge_filter v ! e \<and> Graph_GetTarget (graph v) e = to \<and>
                 filter_function (Graph_GetEdgeData (graph v) e))
       (Graph_GetAdjacentEdgeRange (graph v) from)"

text \<open>
  The sum of \<open>GetOutDegree(n)\<close> over a list of nodes; a failing call fails the sum.
\<close>

fun sum_out_degrees :: "(NodeID \<Rightarrow> error + nat) \<Rightarrow> NodeID list \<Rightarrow> error + nat" where
  "sum_out_degrees degree [] = Inr 0"
| "sum_out_degrees degree (n # ns) =
     (case degree n of
        Inl err \<Rightarrow> Inl err
      | Inr k \<Rightarrow>
          (case sum_out_degrees degree ns of
             Inl err \<Rightarrow> Inl err
           | Inr s \<Rightarrow> Inr (k + s)))"

section \<open>A small road network\<close>

text \<open>
  Three nodes and four edges: two parallel edges from node 0 to node 1 (ids 0 and 1,
  weights 5 and 3), one edge from node 1 to node 2 (id 2, weight 4) and one edge from
  node 2 to node 0 (id 3, weight 7). The static view masks edge 2 out. The sentinels
  are the largest 32-bit values.
\<close>

definition example_typedefs :: typedefs where
  "example_typedefs =
     \<lparr>SPECIAL_NODEID = 4294967295, SPECIAL_EDGEID = 4294967295,
      INVALID_EDGE_WEIGHT = 2147483647\<rparr>"

definition example_graph :: "EdgeData Graph" where
  "example_graph =
     \<lparr>Graph_GetNumberOfNodes = 3,
      Graph_GetNumberOfEdges = 4,
      Graph_GetAdjacentEdgeRange =
        (\<lambda>n. if n = 0 then [0, 1] else if n = 1 then [2] else if n = 2 then [3] else []),
      Graph_GetTarget = (\<lambda>e. [1, 1, 2, 0] ! e),
      Graph_GetEdgeData = (\<lambda>e. \<lparr>weight = [5, 3, 4, 7] ! e\<rparr>)\<rparr>"

definition example_view :: "EdgeData StaticFilteredGraph" where
  "example_view = \<lparr>graph = example_graph, edge_filter = [True, True, False, True]\<rparr>"

text \<open>
  A payload type with a \<open>filter\<close> member of its own (called \<open>filter_member\<close> here), the
  same network with such payloads, every one with the member set, and the dynamic view
  of it in which node 2 is not valid.
\<close>

record FilterEdgeData = EdgeData +
  filter_member :: bool

definition example_filter_graph :: "FilterEdgeData Graph" where
  "example_filter_graph =
     \<lparr>Graph_GetNumberOfNodes = 3,
      Graph_GetNumberOfEdges = 4,
      Graph_GetAdjacentEdgeRange =
        (\<lambda>n. if n = 0 then [0, 1] else if n = 1 then [2] else if n = 2 then [3] else []),
      Graph_GetTarget = (\<lambda>e. [1, 1, 2, 0] ! e),
      Graph_GetEdgeData = (\<lambda>e. \<lparr>weight = [5, 3, 4, 7] ! e, filter_member = True\<rparr>)\<rparr>"

definition example_node_valid :: "NodeID \<Rightarrow> bool" where
  "example_node_valid n \<longleftrightarrow> n \<noteq> 2"

definition example_dynamic_view :: "FilterEdgeData DynamicFilteredGraph" where
  "example_dynamic_view = FilteredGraphImpl_dynamic example_filter_graph example_node_valid"

text \<open>
  A store with a single edge from node 0 to node 1 whose weight is
  \<open>INVALID_EDGE_WEIGHT\<close>, unmasked, and an auxiliary predicate that accepts every payload.
\<close>

definition heavy_graph :: "EdgeData Graph" where
  "heavy_graph =
     \<lparr>Graph_GetNumberOfNodes = 2,
      Graph_GetNumberOfEdges = 1,
      Graph_GetAdjacentEdgeRange = (\<lambda>n. if n = 0 then [0] else []),
      Graph_GetTarget = (\<lambda>e. 1),
      Graph_GetEdgeData = (\<lambda>e. \<lparr>weight = 2147483647\<rparr>)\<rparr>"

definition heavy_view :: "EdgeData StaticFilteredGraph" where
  "heavy_view = \<lparr>graph = heavy_graph, edge_filter = [True]\<rparr>"

definition accept_all :: "EdgeData \<Rightarrow> bool" where
  "accept_all d \<longleftrightarrow> True"

text \<open>
  A predicate on edge ids for the predicate constructor, and a store operation that
  stands in for the store's \<open>Renumber\<close> in examples: it relabels the target of every edge
  and keeps the edge ids.
\<close>

definition example_edge_pred :: "EdgeID \<Rightarrow> bool" where
  "example_edge_pred e \<longleftrightarrow> e \<noteq> 2"

definition relabel_targets :: "NodeID list \<Rightarrow> 'd Graph \<Rightarrow> 'd Graph" where
  "relabel_targets old_to_new_node g =
     g\<lparr>Graph_GetTarget := (\<lambda>e. old_to_new_node ! Graph_GetTarget g e)\<rparr>"

section \<open>Reads within range\<close>

text \<open>
  In a valid static view every filter bit that an operation reads exists, so the loops
  compute what the corresponding list functions compute.
\<close>

lemma count_if_in_range:
  "\<forall>e \<in> set es. e < length (edge_filter v) \<Longrightarrow>
   count_if (edge_filter_at v) es = Inr (length (filter (\<lambda>e. edge_filter v ! e) es))"
  by (induction es) (simp_all add: edge_filter_at_def)

lemma filtered_in_range:
  "\<forall>e \<in> set es. e < length (edge_filter v) \<Longrightarrow>
   filtered (edge_filter_at v) es = Inr (filter (\<lambda>e. edge_filter v ! e) es)"
  by (induction es) (simp_all add: edge_filter_at_def)

lemma valid_static_range:
  "valid_static v \<Longrightarrow> n < Graph_GetNumberOfNodes (graph v) \<Longrightarrow>
   \<forall>e \<in> set (Graph_GetAdjacentEdgeRange (graph v) n). e < length (edge_filter v)"
  by (simp add: valid_static_def)

lemma GetAdjacentEdgeRange_static_valid:
  "valid_static v \<Longrightarrow> n < Graph_GetNumberOfNodes (graph v) \<Longrightarrow>
   GetAdjacentEdgeRange_static v n =
     Inr (filter (\<lambda>e. edge_filter v ! e) (Graph_GetAdjacentEdgeRange (graph v) n))"
  unfolding GetAdjacentEdgeRange_static_def
  by (rule filtered_in_range) (rule valid_static_range)

lemma FindSmallestEdge_loop_static_spec:
  assumes "\<forall>e \<in> set es. e < length (edge_filter v)"
  shows "\<exists>r. FindSmallestEdge_loop_static v to P (se, sw) es = Inr r \<and>
    (if \<exists>e \<in> set es. (edge_filter v ! e \<and> Graph_GetTarget (graph v) e = to \<and>
          P (Graph_GetEdgeData (graph v) e)) \<and> weight (Graph_GetEdgeData (graph v) e) < sw
     then r \<in> set es \<and> (edge_filter v ! r \<and> Graph_GetTarget (graph v) r = to \<and>
          P (Graph_GetEdgeData (graph v) r)) \<and> weight (Graph_GetEdgeData (graph v) r) < sw \<and>
          (\<forall>e \<in> set es. edge_filter v ! e \<and> Graph_GetTarget (graph v) e = to \<and>
             P (Graph_GetEdgeData (graph v) e) \<longrightarrow>
             weight (Graph_GetEdgeData (graph v) r) \<le> weight (Graph_GetEdgeData (graph v) e))
     else r = se)"
  using assms
proof (induction es arbitrary: se sw)
  case Nil
  then show ?case by simp
next
  case (Cons edge rest)
  let ?w = "\<lambda>e. weight (Graph_GetEdgeData (graph v) e)"
  let ?ok = "\<lambda>e. edge_filter v ! e \<and> Graph_GetTarget (graph v) e = to \<and>
     P (Graph_GetEdgeData (graph v) e)"
  from Cons.prems have rest: "\<forall>e \<in> set rest. e < length (edge_filter v)"
    and here: "edge < length (edge_filter v)" by simp_all
  show ?case
  proof (cases "?ok edge \<and> ?w edge < sw")
    case True
    from Cons.IH [OF rest, of edge "?w edge"]
    obtain r where r: "FindSmallestEdge_loop_static v to P (edge, ?w edge) rest = Inr r"
      and sp: "if \<exists>e \<in> set rest. ?ok e \<and> ?w e < ?w edge
         then r \<in> set rest \<and> ?ok r \<and> ?w r < ?w edge \<and>
              (\<forall>e \<in> set rest. ?ok e \<longrightarrow> ?w r \<le> ?w e)
         else r = edge"
      by blast
    from True here r
    have run: "FindSmallestEdge_loop_static v to P (se, sw) (edge # rest) = Inr r"
      by (simp add: edge_filter_at_def GetTarget_static_def GetEdgeData_static_def)
    show ?thesis
    proof (cases "\<exists>e \<in> set rest. ?ok e \<and> ?w e < ?w edge")
      case better: True
      with sp have "r \<in> set rest" "?ok r" "?w r < ?w edge"
        "\<forall>e \<in> set rest. ?ok e \<longrightarrow> ?w r \<le> ?w e" by simp_all
      with True run show ?thesis by auto
    next
      case nobetter: False
      with sp have "r = edge" by simp
      with True run nobetter show ?thesis by auto
    qed
  next
    case False
    from Cons.IH [OF rest, of se sw]
    obtain r where r: "FindSmallestEdge_loop_static v to P (se, sw) rest = Inr r"
      and sp: "if \<exists>e \<in> set rest. ?ok e \<and> ?w e < sw
         then r \<in> set rest \<and> ?ok r \<and> ?w r < sw \<and>
              (\<forall>e \<in> set rest. ?ok e \<longrightarrow> ?w r \<le> ?w e)
         else r = se"
      by blast
    from False here r
    have run: "FindSmallestEdge_loop_static v to P (se, sw) (edge # rest) = Inr r"
      by (auto simp add: edge_filter_at_def GetTarget_static_def GetEdgeData_static_def)
    show ?thesis
    proof (cases "\<exists>e \<in> set rest. ?ok e \<and> ?w e < sw")
      case better: True
      with sp have "r \<in> set rest" "?ok r" "?w r < sw"
        "\<forall>e \<in> set rest. ?ok e \<longrightarrow> ?w r \<le> ?w e" by simp_all
      with False run better show ?thesis by auto
    next
      case nobetter: False
      with sp have "r = se" by simp
      with False run nobetter show ?thesis by auto
    qed
  qed
qed

section \<open>Construction of a static view\<close>

text \<open>
  \<open>std::transform\<close> over \<open>irange(0, m)\<close> into a vector of \<open>m\<close> bits leaves exactly the
  values of the predicate on \<open>0, ..., m - 1\<close>.
\<close>

lemma fold_update_prefix:
  "k \<le> length out \<Longrightarrow>
   fold (\<lambda>i acc. acc[i := f i]) [0..<k] out = map f [0..<k] @ drop k out"
proof (induction k)
  case 0
  then show ?case by simp
next
  case (Suc k)
  then have k: "k < length out" by simp
  with Suc.IH have "fold (\<lambda>i acc. acc[i := f i]) [0..<k] out = map f [0..<k] @ drop k out"
    by simp
  moreover have "(map f [0..<k] @ drop k out)[k := f k] =
      map f [0..<k] @ (drop k out)[0 := f k]"
    by (simp add: list_update_append)
  moreover from k have "(drop k out)[0 := f k] = f k # drop (Suc k) out"
    by (simp add: Cons_nth_drop_Suc [symmetric])
  ultimately show ?case by simp
qed

lemma transform_irange_map:
  "transform_irange m f (replicate m False) = map f [0..<m]"
  by (simp add: transform_irange_def fold_update_prefix)

lemma edge_filter_pred [simp]:
  "edge_filter (FilteredGraphImpl_static_pred G f) = map f [0..<Graph_GetNumberOfEdges G]"
  by (simp add: FilteredGraphImpl_static_pred_def transform_irange_map)

lemma graph_pred [simp]: "graph (FilteredGraphImpl_static_pred G f) = G"
  by (simp add: FilteredGraphImpl_static_pred_def)

text \<open>
  Claim C1. The view built from a store and a predicate \<open>f\<close> on edge ids, and the view
  built from the same store and the vector \<open>[f(0), ..., f(edgeCount - 1)]\<close>, report the
  same \<open>GetOutDegree(n)\<close> and the same \<open>GetAdjacentEdgeRange(n)\<close> sequence for every node
  \<open>n\<close>: the vector constructor accepts the vector and yields the very same view. Where the
  adjacency range of \<open>n\<close> holds edge ids of the store only, what both report is the range
  filtered by \<open>f\<close> and the number of its edges that satisfy \<open>f\<close>.
\<close>

theorem predicate_view_agrees_with_vector_view:
  "(\<exists>v. FilteredGraphImpl_static G (map f [0..<Graph_GetNumberOfEdges G]) = Inr v \<and>
      (\<forall>n. GetOutDegree_static v n = GetOutDegree_static (FilteredGraphImpl_static_pred G f) n \<and>
           GetAdjacentEdgeRange_static v n =
             GetAdjacentEdgeRange_static (FilteredGraphImpl_static_pred G f) n)) \<and>
   ((\<forall>e \<in> set (Graph_GetAdjacentEdgeRange G n). e < Graph_GetNumberOfEdges G) \<longrightarrow>
      GetAdjacentEdgeRange_static (FilteredGraphImpl_static_pred G f) n =
        Inr (filter f (Graph_GetAdjacentEdgeRange G n)) \<and>
      GetOutDegree_static (FilteredGraphImpl_static_pred G f) n =
        Inr (to_unsigned (length (filter f (Graph_GetAdjacentEdgeRange G n)))))"
proof -
  let ?p = "FilteredGraphImpl_static_pred G f"
  have same: "FilteredGraphImpl_static G (map f [0..<Graph_GetNumberOfEdges G]) = Inr ?p"
    by (simp add: FilteredGraphImpl_static_def FilteredGraphImpl_static_pred_def
        transform_irange_map)
  have vals: "GetAdjacentEdgeRange_static ?p n =
        Inr (filter f (Graph_GetAdjacentEdgeRange G n)) \<and>
      GetOutDegree_static ?p n =
        Inr (to_unsigned (length (filter f (Graph_GetAdjacentEdgeRange G n))))"
    if inr: "\<forall>e \<in> set (Graph_GetAdjacentEdgeRange G n). e < Graph_GetNumberOfEdges G"
  proof -
    from inr have len: "\<forall>e \<in> set (Graph_GetAdjacentEdgeRange G n). e < length (edge_filter ?p)"
      by simp
    from inr have "filter (\<lambda>e. edge_filter ?p ! e) (Graph_GetAdjacentEdgeRange G n) =
        filter f (Graph_GetAdjacentEdgeRange G n)"
      by (intro filter_cong) simp_all
    with filtered_in_range [OF len] count_if_in_range [OF len] show ?thesis
      by (simp add: GetAdjacentEdgeRange_static_def GetOutDegree_static_def)
  qed
  from same vals show ?thesis by simp
qed

theorem predicate_view_agrees_with_vector_view_witness:
  "Graph_GetAdjacentEdgeRange example_graph 1 = [2] \<and>
   Graph_GetAdjacentEdgeRange example_graph 0 = [0, 1] \<and>
   (2::nat) < Graph_GetNumberOfEdges example_graph \<and>
   GetAdjacentEdgeRange_static
     (FilteredGraphImpl_static_pred example_graph example_edge_pred) 1 = Inr [] \<and>
   GetOutDegree_static
     (FilteredGraphImpl_static_pred example_graph example_edge_pred) 1 = Inr 0 \<and>
   GetAdjacentEdgeRange_static
     (FilteredGraphImpl_static_pred example_graph example_edge_pred) 0 = Inr [0, 1] \<and>
   GetOutDegree_static
     (FilteredGraphImpl_static_pred example_graph example_edge_pred) 0 = Inr 2"
proof -
  have r1: "\<forall>e \<in> set (Graph_GetAdjacentEdgeRange example_graph 1).
      e < Graph_GetNumberOfEdges example_graph"
    and r0: "\<forall>e \<in> set (Graph_GetAdjacentEdgeRange example_graph 0).
      e < Graph_GetNumberOfEdges example_graph"
    and m: "(2::nat) < Graph_GetNumberOfEdges example_graph"
    by (simp_all add: example_graph_def)
  have adj: "Graph_GetAdjacentEdgeRange example_graph 1 = [2]"
    "Graph_GetAdjacentEdgeRange example_graph 0 = [0, 1]"
    by (simp_all add: example_graph_def)
  from predicate_view_agrees_with_vector_view [of example_graph example_edge_pred 1]
    predicate_view_agrees_with_vector_view [of example_graph example_edge_pred 0]
    r1 r0 m adj
  show ?thesis by (simp add: example_edge_pred_def to_unsigned_def)
qed

text \<open>
  Claim C3. In a static view the filter has one bit per edge of the store at every
  moment after construction. The vector constructor asserts it and fails otherwise; the
  predicate constructor creates the vector with that size; \<open>Renumber\<close>, the only operation
  that changes the view, leaves the filter alone, so the sizes still agree after it when
  the store's own \<open>Renumber\<close> keeps the number of edges.
\<close>

theorem static_mask_size_invariant:
  "(FilteredGraphImpl_static G edge_filter' = Inr v \<longrightarrow>
      length (edge_filter v) = Graph_GetNumberOfEdges (graph v)) \<and>
   (length edge_filter' \<noteq> Graph_GetNumberOfEdges G \<longrightarrow>
      FilteredGraphImpl_static G edge_filter' = Inl AssertionFailed) \<and>
   length (edge_filter (FilteredGraphImpl_static_pred G f)) =
     Graph_GetNumberOfEdges (graph (FilteredGraphImpl_static_pred G f)) \<and>
   (length (edge_filter u) = Graph_GetNumberOfEdges (graph u) \<and>
    Graph_GetNumberOfEdges (graph_Renumber old_to_new_node (graph u)) =
      Graph_GetNumberOfEdges (graph u) \<longrightarrow>
      length (edge_filter (Renumber_static graph_Renumber old_to_new_node u)) =
        Graph_GetNumberOfEdges (graph (Renumber_static graph_Renumber old_to_new_node u)))"
  by (auto simp add: FilteredGraphImpl_static_def Renumber_static_def split: if_splits)

theorem static_mask_size_invariant_witness:
  "FilteredGraphImpl_static example_graph [True, True, False, True] = Inr example_view \<and>
   length [True, True] \<noteq> Graph_GetNumberOfEdges example_graph \<and>
   FilteredGraphImpl_static example_graph [True, True] = Inl AssertionFailed \<and>
   length (edge_filter example_view) = Graph_GetNumberOfEdges (graph example_view) \<and>
   Graph_GetNumberOfEdges (relabel_targets [1, 2, 0] (graph example_view)) =
     Graph_GetNumberOfEdges (graph example_view) \<and>
   length (edge_filter (Renumber_static relabel_targets [1, 2, 0] example_view)) =
     Graph_GetNumberOfEdges (graph (Renumber_static relabel_targets [1, 2, 0] example_view))"
proof -
  have built: "FilteredGraphImpl_static example_graph [True, True, False, True] = Inr example_view"
    by (simp add: FilteredGraphImpl_static_def example_view_def example_graph_def)
  have kept: "Graph_GetNumberOfEdges (relabel_targets [1, 2, 0] (graph example_view)) =
     Graph_GetNumberOfEdges (graph example_view)"
    by (simp add: relabel_targets_def)
  have short: "length [True, True] \<noteq> Graph_GetNumberOfEdges example_graph"
    by (simp add: example_graph_def)
  from static_mask_size_invariant
    [of example_graph "[True, True, False, True]" example_view example_edge_pred example_view
      relabel_targets "[1, 2, 0]"]
    static_mask_size_invariant
    [of example_graph "[True, True]" example_view example_edge_pred example_view
      relabel_targets "[1, 2, 0]"]
    built kept short
  show ?thesis by simp
qed

section \<open>Construction of a dynamic view\<close>

text \<open>
  The constructor changes nothing but the filter bits of the records, and the bit of an
  edge that lies in the adjacency range of exactly one node \<open>s\<close> ends up as the
  conjunction of the predicate at \<open>s\<close> and at the target of the edge.
\<close>

lemma set_edge_filter_shape [simp]:
  "Graph_GetNumberOfNodes (set_edge_filter p b e g) = Graph_GetNumberOfNodes g"
  "Graph_GetNumberOfEdges (set_edge_filter p b e g) = Graph_GetNumberOfEdges g"
  "Graph_GetAdjacentEdgeRange (set_edge_filter p b e g) = Graph_GetAdjacentEdgeRange g"
  "Graph_GetTarget (set_edge_filter p b e g) = Graph_GetTarget g"
  by (simp_all add: set_edge_filter_def)

lemma fold_set_edge_filter_shape [simp]:
  "Graph_GetNumberOfNodes (fold (set_edge_filter p b) es g) = Graph_GetNumberOfNodes g"
  "Graph_GetNumberOfEdges (fold (set_edge_filter p b) es g) = Graph_GetNumberOfEdges g"
  "Graph_GetAdjacentEdgeRange (fold (set_edge_filter p b) es g) = Graph_GetAdjacentEdgeRange g"
  "Graph_GetTarget (fold (set_edge_filter p b) es g) = Graph_GetTarget g"
  by (induction es arbitrary: g) simp_all

lemma fold_set_edge_filter_data:
  "Graph_GetEdgeData (fold (set_edge_filter p b) es g) e =
     (if e \<in> set es
      then (Graph_GetEdgeData g e)\<lparr>filter_bit := b \<and> p (Graph_GetTarget g e)\<rparr>
      else Graph_GetEdgeData g e)"
  by (induction es arbitrary: g) (auto simp add: set_edge_filter_def)

lemma set_node_filter_shape [simp]:
  "Graph_GetNumberOfNodes (set_node_filter p n g) = Graph_GetNumberOfNodes g"
  "Graph_GetNumberOfEdges (set_node_filter p n g) = Graph_GetNumberOfEdges g"
  "Graph_GetAdjacentEdgeRange (set_node_filter p n g) = Graph_GetAdjacentEdgeRange g"
  "Graph_GetTarget (set_node_filter p n g) = Graph_GetTarget g"
  by (simp_all add: set_node_filter_def)

lemma set_node_filter_data:
  "Graph_GetEdgeData (set_node_filter p n g) e =
     (if e \<in> set (Graph_GetAdjacentEdgeRange g n)
      then (Graph_GetEdgeData g e)\<lparr>filter_bit := p n \<and> p (Graph_GetTarget g e)\<rparr>
      else Graph_GetEdgeData g e)"
  by (simp add: set_node_filter_def fold_set_edge_filter_data)

lemma fold_set_node_filter_shape [simp]:
  "Graph_GetNumberOfNodes (fold (set_node_filter p) ns g) = Graph_GetNumberOfNodes g"
  "Graph_GetNumberOfEdges (fold (set_node_filter p) ns g) = Graph_GetNumberOfEdges g"
  "Graph_GetAdjacentEdgeRange (fold (set_node_filter p) ns g) = Graph_GetAdjacentEdgeRange g"
  "Graph_GetTarget (fold (set_node_filter p) ns g) = Graph_GetTarget g"
  by (induction ns arbitrary: g) simp_all

lemma fold_set_node_filter_untouched:
  "\<forall>n \<in> set ns. e \<notin> set (Graph_GetAdjacentEdgeRange g n) \<Longrightarrow>
   Graph_GetEdgeData (fold (set_node_filter p) ns g) e = Graph_GetEdgeData g e"
  by (induction ns arbitrary: g) (simp_all add: set_node_filter_data)

lemma fold_set_node_filter_owner:
  assumes "s \<in> set ns" "e \<in> set (Graph_GetAdjacentEdgeRange g s)"
    and "\<forall>n \<in> set ns. e \<in> set (Graph_GetAdjacentEdgeRange g n) \<longrightarrow> n = s"
  shows "Graph_GetEdgeData (fold (set_node_filter p) ns g) e =
    (Graph_GetEdgeData g e)\<lparr>filter_bit := p s \<and> p (Graph_GetTarget g e)\<rparr>"
  using assms
proof (induction ns arbitrary: g)
  case Nil
  then show ?case by simp
next
  case (Cons n ns)
  let ?g = "set_node_filter p n g"
  show ?case
  proof (cases "s \<in> set ns")
    case True
    from Cons.prems have "e \<in> set (Graph_GetAdjacentEdgeRange ?g s)"
      "\<forall>m \<in> set ns. e \<in> set (Graph_GetAdjacentEdgeRange ?g m) \<longrightarrow> m = s"
      by simp_all
    from Cons.IH [OF True this]
    have "Graph_GetEdgeData (fold (set_node_filter p) ns ?g) e =
        (Graph_GetEdgeData ?g e)\<lparr>filter_bit := p s \<and> p (Graph_GetTarget g e)\<rparr>"
      by simp
    then show ?thesis by (simp add: set_node_filter_data)
  next
    case False
    with Cons.prems have ns: "n = s"
      and "\<forall>m \<in> set ns. e \<notin> set (Graph_GetAdjacentEdgeRange ?g m)"
      by auto
    from fold_set_node_filter_untouched [OF this(2)] ns Cons.prems(2)
    show ?thesis by (simp add: set_node_filter_data)
  qed
qed

lemma fold_set_node_filter_payload:
  "data (Graph_GetEdgeData (fold (set_node_filter p) ns g) e) = data (Graph_GetEdgeData g e)"
  by (induction ns arbitrary: g) (simp_all add: set_node_filter_data)

lemma Transform_shape [simp]:
  "Graph_GetNumberOfNodes (Transform G) = Graph_GetNumberOfNodes G"
  "Graph_GetNumberOfEdges (Transform G) = Graph_GetNumberOfEdges G"
  "Graph_GetAdjacentEdgeRange (Transform G) = Graph_GetAdjacentEdgeRange G"
  "Graph_GetTarget (Transform G) = Graph_GetTarget G"
  by (simp_all add: Transform_def)

lemma FilteredGraphImpl_dynamic_shape [simp]:
  "Graph_GetNumberOfNodes (dgraph (FilteredGraphImpl_dynamic G p)) = Graph_GetNumberOfNodes G"
  "Graph_GetNumberOfEdges (dgraph (FilteredGraphImpl_dynamic G p)) = Graph_GetNumberOfEdges G"
  "Graph_GetAdjacentEdgeRange (dgraph (FilteredGraphImpl_dynamic G p)) =
     Graph_GetAdjacentEdgeRange G"
  "Graph_GetTarget (dgraph (FilteredGraphImpl_dynamic G p)) = Graph_GetTarget G"
  by (simp_all add: FilteredGraphImpl_dynamic_def)

lemma FilteredGraphImpl_dynamic_bit:
  assumes dis: "ranges_disjoint G" and s: "s < Graph_GetNumberOfNodes G"
    and e: "e \<in> set (Graph_GetAdjacentEdgeRange G s)"
  shows "filter_bit (Graph_GetEdgeData (dgraph (FilteredGraphImpl_dynamic G p)) e) \<longleftrightarrow>
    p s \<and> p (Graph_GetTarget G e)"
proof -
  let ?ns = "[0..<Graph_GetNumberOfNodes (Transform G)]"
  from s have mem: "s \<in> set ?ns" by simp
  from e have e': "e \<in> set (Graph_GetAdjacentEdgeRange (Transform G) s)" by simp
  have only: "\<forall>n \<in> set ?ns. e \<in> set (Graph_GetAdjacentEdgeRange (Transform G) n) \<longrightarrow> n = s"
  proof (intro ballI impI)
    fix n assume "n \<in> set ?ns" and en: "e \<in> set (Graph_GetAdjacentEdgeRange (Transform G) n)"
    then have n: "n < Graph_GetNumberOfNodes G" by simp
    show "n = s"
    proof (rule ccontr)
      assume "n \<noteq> s"
      with dis s n have "set (Graph_GetAdjacentEdgeRange G s) \<inter>
          set (Graph_GetAdjacentEdgeRange G n) = {}"
        by (auto simp add: ranges_disjoint_def)
      with e en show False by auto
    qed
  qed
  from fold_set_node_filter_owner [OF mem e' only, of p] show ?thesis
    by (simp add: FilteredGraphImpl_dynamic_def)
qed

text \<open>
  The range of the built view, however, does not depend on the node predicate at all: it
  keeps the edges whose payload has its own filter member set.
\<close>

lemma GetAdjacentEdgeRange_dynamic_built:
  "GetAdjacentEdgeRange_dynamic payload_filter (FilteredGraphImpl_dynamic G p) n =
     filter (\<lambda>e. payload_filter (Graph_GetEdgeData G e)) (Graph_GetAdjacentEdgeRange G n)"
  by (simp add: GetAdjacentEdgeRange_dynamic_def GetEdgeData_dynamic_def
      FilteredGraphImpl_dynamic_def fold_set_node_filter_payload Transform_def)

text \<open>
  Claim C2 says that after construction an edge is visible if and only if the node
  predicate holds at its source and at its target. The code does not do that. In the
  example, edge 2 runs from node 1 to node 2 and the predicate fails at node 2. The
  constructor clears the bit of the edge's record, and yet \<open>GetAdjacentEdgeRange(1)\<close>
  yields the edge.
\<close>

theorem dynamic_range_ignores_filter_bit:
  "(1::nat) < Graph_GetNumberOfNodes example_filter_graph \<and>
   (2::nat) \<in> set (Graph_GetAdjacentEdgeRange example_filter_graph 1) \<and>
   example_node_valid 1 \<and>
   \<not> example_node_valid (Graph_GetTarget example_filter_graph 2) \<and>
   \<not> filter_bit (Graph_GetEdgeData (dgraph example_dynamic_view) 2) \<and>
   GetAdjacentEdgeRange_dynamic filter_member example_dynamic_view 1 = [2]"
  by (simp add: GetAdjacentEdgeRange_dynamic_def GetEdgeData_dynamic_def
      example_dynamic_view_def FilteredGraphImpl_dynamic_def Transform_def
      set_node_filter_def set_edge_filter_def example_filter_graph_def
      example_node_valid_def numeral_3_eq_3)

section \<open>Looking an edge up\<close>

text \<open>
  Claim C7 says that \<open>FindEdge(from, to)\<close> returns the sentinel when no unmasked edge from
  \<open>from\<close> to \<open>to\<close> exists, and an unmasked edge with target \<open>to\<close> otherwise. As written,
  \<open>FindEdge\<close> does not instantiate in either class, since nothing declares \<open>GetTarge\<close>.
  Even where \<open>GetTarge\<close> is taken to be the view's \<open>GetTarget\<close>, the dynamic view does not do
  what the claim says: in the example the only edge from node 1 to node 2 is edge 2,
  whose filter bit the constructor has cleared, and \<open>FindEdge(1, 2)\<close> returns that edge
  and not the sentinel.
\<close>

theorem FindEdge_dynamic_returns_masked_edge:
  "\<not> filter_bit (Graph_GetEdgeData (dgraph example_dynamic_view) 2) \<and>
   SPECIAL_EDGEID example_typedefs \<noteq> 2 \<and>
   FindEdge_dynamic example_typedefs filter_member
     (Inr \<circ> GetTarget_dynamic example_dynamic_view) example_dynamic_view 1 2 = Inr 2"
  by (simp add: FindEdge_dynamic_def GetAdjacentEdgeRange_dynamic_def GetEdgeData_dynamic_def
      GetTarget_dynamic_def example_typedefs_def
      example_dynamic_view_def FilteredGraphImpl_dynamic_def Transform_def
      set_node_filter_def set_edge_filter_def example_filter_graph_def
      example_node_valid_def numeral_3_eq_3)

section \<open>The out-flag of the directed lookup\<close>




section \<open>The lightest edge between two nodes\<close>

text \<open>
  Claim C6, as amended, for the static view. \<open>FindSmallestEdge(from, to, P)\<close> chooses
  among the unmasked edges from \<open>from\<close> to \<open>to\<close> whose payload satisfies \<open>P\<close>. When one of
  them weighs less than \<open>INVALID_EDGE_WEIGHT\<close>, the function returns such an edge of minimal
  weight among all of them. When none of them weighs less than \<open>INVALID_EDGE_WEIGHT\<close>, in
  particular when there is none at all, it returns the sentinel \<open>SPECIAL_EDGEID\<close>.
\<close>

theorem FindSmallestEdge_minimal:
  "valid_static v \<and> from < Graph_GetNumberOfNodes (graph v) \<longrightarrow>
      ((\<exists>e \<in> set (candidates_static v from to P).
          weight (Graph_GetEdgeData (graph v) e) < INVALID_EDGE_WEIGHT td) \<longrightarrow>
       (\<exists>r \<in> set (candidates_static v from to P).
          FindSmallestEdge_static td v from to P = Inr r \<and>
          (\<forall>e \<in> set (candidates_static v from to P).
             weight (Graph_GetEdgeData (graph v) r) \<le> weight (Graph_GetEdgeData (graph v) e)))) \<and>
      ((\<forall>e \<in> set (candidates_static v from to P).
          INVALID_EDGE_WEIGHT td \<le> weight (Graph_GetEdgeData (graph v) e)) \<longrightarrow>
       FindSmallestEdge_static td v from to P = Inr (SPECIAL_EDGEID td))"
proof (intro impI, elim conjE)
  let ?C = "candidates_static v from to P"
  let ?wt = "\<lambda>e. weight (Graph_GetEdgeData (graph v) e)"
  let ?es = "Graph_GetAdjacentEdgeRange (graph v) from"
  assume val: "valid_static v" and lt: "from < Graph_GetNumberOfNodes (graph v)"
  from FindSmallestEdge_loop_static_spec [OF valid_static_range [OF val lt],
      of to P "SPECIAL_EDGEID td" "INVALID_EDGE_WEIGHT td"]
  obtain r where r: "FindSmallestEdge_static td v from to P = Inr r"
    and sp: "if \<exists>e \<in> set ?es. (edge_filter v ! e \<and> Graph_GetTarget (graph v) e = to \<and>
               P (Graph_GetEdgeData (graph v) e)) \<and> ?wt e < INVALID_EDGE_WEIGHT td
       then r \<in> set ?es \<and> (edge_filter v ! r \<and> Graph_GetTarget (graph v) r = to \<and>
               P (Graph_GetEdgeData (graph v) r)) \<and> ?wt r < INVALID_EDGE_WEIGHT td \<and>
            (\<forall>e \<in> set ?es. edge_filter v ! e \<and> Graph_GetTarget (graph v) e = to \<and>
               P (Graph_GetEdgeData (graph v) e) \<longrightarrow> ?wt r \<le> ?wt e)
       else r = SPECIAL_EDGEID td"
    unfolding FindSmallestEdge_static_def by blast
  have some: "\<exists>r \<in> set ?C. FindSmallestEdge_static td v from to P = Inr r \<and>
        (\<forall>e \<in> set ?C. ?wt r \<le> ?wt e)"
    if "\<exists>e \<in> set ?C. ?wt e < INVALID_EDGE_WEIGHT td"
  proof -
    from that have "\<exists>e \<in> set ?es. (edge_filter v ! e \<and> Graph_GetTarget (graph v) e = to \<and>
               P (Graph_GetEdgeData (graph v) e)) \<and> ?wt e < INVALID_EDGE_WEIGHT td"
      by (auto simp add: candidates_static_def)
    with sp have "r \<in> set ?C" "\<forall>e \<in> set ?C. ?wt r \<le> ?wt e"
      by (simp_all add: candidates_static_def)
    with r show ?thesis by blast
  qed
  have none: "FindSmallestEdge_static td v from to P = Inr (SPECIAL_EDGEID td)"
    if "\<forall>e \<in> set ?C. INVALID_EDGE_WEIGHT td \<le> ?wt e"
  proof -
    from that have "\<not> (\<exists>e \<in> set ?es. (edge_filter v ! e \<and> Graph_GetTarget (graph v) e = to \<and>
               P (Graph_GetEdgeData (graph v) e)) \<and> ?wt e < INVALID_EDGE_WEIGHT td)"
      by (auto simp add: candidates_static_def)
    with sp have "r = SPECIAL_EDGEID td" by simp
    with r show ?thesis by simp
  qed
  from some none
  show "((\<exists>e \<in> set ?C. ?wt e < INVALID_EDGE_WEIGHT td) \<longrightarrow>
       (\<exists>r \<in> set ?C. FindSmallestEdge_static td v from to P = Inr r \<and>
          (\<forall>e \<in> set ?C. ?wt r \<le> ?wt e))) \<and>
     ((\<forall>e \<in> set ?C. INVALID_EDGE_WEIGHT td \<le> ?wt e) \<longrightarrow>
       FindSmallestEdge_static td v from to P = Inr (SPECIAL_EDGEID td))"
    by blast
qed

theorem FindSmallestEdge_minimal_witness:
  "valid_static example_view \<and>
   (0::nat) < Graph_GetNumberOfNodes (graph example_view) \<and>
   (1::nat) < Graph_GetNumberOfNodes (graph example_view) \<and>
   candidates_static example_view 0 1 accept_all = [0, 1] \<and>
   weight (Graph_GetEdgeData (graph example_view) 1) < INVALID_EDGE_WEIGHT example_typedefs \<and>
   FindSmallestEdge_static example_typedefs example_view 0 1 accept_all = Inr 1 \<and>
   candidates_static example_view 1 2 accept_all = [] \<and>
   FindSmallestEdge_static example_typedefs example_view 1 2 accept_all =
     Inr (SPECIAL_EDGEID example_typedefs) \<and>
   valid_static heavy_view \<and>
   candidates_static heavy_view 0 1 accept_all = [0] \<and>
   INVALID_EDGE_WEIGHT example_typedefs \<le> weight (Graph_GetEdgeData (graph heavy_view) 0) \<and>
   FindSmallestEdge_static example_typedefs heavy_view 0 1 accept_all =
     Inr (SPECIAL_EDGEID example_typedefs)"
proof -
  have val: "valid_static example_view"
    by (simp add: valid_static_def example_view_def example_graph_def All_less_Suc
        numeral_3_eq_3)
  have nodes: "(0::nat) < Graph_GetNumberOfNodes (graph example_view)"
    "(1::nat) < Graph_GetNumberOfNodes (graph example_view)"
    by (simp_all add: example_view_def example_graph_def)
  have cands: "candidates_static example_view 0 1 accept_all = [0, 1]"
    "candidates_static example_view 1 2 accept_all = []"
    by (simp_all add: candidates_static_def accept_all_def example_view_def example_graph_def)
  have wts: "weight (Graph_GetEdgeData (graph example_view) 0) = 5"
    "weight (Graph_GetEdgeData (graph example_view) 1) = 3"
    by (simp_all add: example_view_def example_graph_def)
  have inv: "INVALID_EDGE_WEIGHT example_typedefs = 2147483647"
    by (simp add: example_typedefs_def)
  from FindSmallestEdge_minimal [of example_view 0 1 accept_all example_typedefs]
    val nodes cands wts inv
  have found: "FindSmallestEdge_static example_typedefs example_view 0 1 accept_all = Inr 1"
    by auto
  from FindSmallestEdge_minimal [of example_view 1 2 accept_all example_typedefs]
    val nodes cands
  have missing:
    "FindSmallestEdge_static example_typedefs example_view 1 2 accept_all =
       Inr (SPECIAL_EDGEID example_typedefs)"
    by auto
  have hval: "valid_static heavy_view" "(0::nat) < Graph_GetNumberOfNodes (graph heavy_view)"
    by (simp_all add: valid_static_def heavy_view_def heavy_graph_def)
  have hcands: "candidates_static heavy_view 0 1 accept_all = [0]"
    "weight (Graph_GetEdgeData (graph heavy_view) 0) = 2147483647"
    by (simp_all add: candidates_static_def accept_all_def heavy_view_def heavy_graph_def)
  from FindSmallestEdge_minimal [of heavy_view 0 1 accept_all example_typedefs]
    hval hcands inv
  have heavy:
    "FindSmallestEdge_static example_typedefs heavy_view 0 1 accept_all =
       Inr (SPECIAL_EDGEID example_typedefs)"
    by auto
  from val nodes cands wts inv found missing hval hcands heavy
  show ?thesis by simp
qed

text \<open>
  Claim C6 as stated fails for an edge that weighs \<open>INVALID_EDGE_WEIGHT\<close>: the running
  minimum starts at that value and the comparison is strict, so the edge is never chosen
  and the sentinel is returned although the edge is there.
\<close>

theorem FindSmallestEdge_minimal_counterexample:
  "valid_static heavy_view \<and>
   candidates_static heavy_view 0 1 accept_all = [0] \<and>
   SPECIAL_EDGEID example_typedefs \<noteq> 0 \<and>
   FindSmallestEdge_static example_typedefs heavy_view 0 1 accept_all =
     Inr (SPECIAL_EDGEID example_typedefs)"
  by (simp add: valid_static_def candidates_static_def accept_all_def
      FindSmallestEdge_static_def edge_filter_at_def GetTarget_static_def
      GetEdgeData_static_def example_typedefs_def heavy_view_def heavy_graph_def)

section \<open>Accessors\<close>

text \<open>
  The accessors of the static view are guarded by the filter: on a masked edge the
  assertion fails, on an unmasked edge they return what the store holds.
\<close>

lemma accessors_static_guarded:
  "(e < length (edge_filter v) \<and> \<not> edge_filter v ! e \<longrightarrow>
      GetTarget_static v e = Inl AssertionFailed \<and>
      GetEdgeData_static v e = Inl AssertionFailed) \<and>
   (e < length (edge_filter v) \<and> edge_filter v ! e \<longrightarrow>
      GetTarget_static v e = Inr (Graph_GetTarget (graph v) e) \<and>
      GetEdgeData_static v e = Inr (Graph_GetEdgeData (graph v) e))"
  by (simp add: GetTarget_static_def GetEdgeData_static_def edge_filter_at_def)

text \<open>
  Claim C8 says that \<open>GetTarget(e)\<close> and \<open>GetEdgeData(e)\<close> on a masked edge fail their
  assertion. The accessors of the dynamic view do not: in the example the constructor
  has cleared the filter bit of edge 2, and both accessors return what the store holds
  for it.
\<close>

theorem dynamic_accessors_not_guarded:
  "\<not> filter_bit (Graph_GetEdgeData (dgraph example_dynamic_view) 2) \<and>
   GetTarget_dynamic example_dynamic_view 2 = 2 \<and>
   GetEdgeData_dynamic example_dynamic_view 2 = \<lparr>weight = 4, filter_member = True\<rparr>"
  by (simp add: GetTarget_dynamic_def GetEdgeData_dynamic_def
      example_dynamic_view_def FilteredGraphImpl_dynamic_def Transform_def
      set_node_filter_def set_edge_filter_def example_filter_graph_def
      example_node_valid_def numeral_3_eq_3)

section \<open>Renumbering\<close>

text \<open>
  Claim C9. \<open>Renumber\<close> of a static view applies the permutation to the store and leaves
  the filter vector as it is; \<open>Renumber\<close> of a dynamic view is nothing but the store's
  \<open>Renumber\<close>.
\<close>

theorem Renumber_leaves_filter:
  "graph (Renumber_static graph_Renumber old_to_new_node v) =
     graph_Renumber old_to_new_node (graph v) \<and>
   edge_filter (Renumber_static graph_Renumber old_to_new_node v) = edge_filter v \<and>
   Renumber_dynamic dgraph_Renumber old_to_new_node w =
     \<lparr>dgraph = dgraph_Renumber old_to_new_node (dgraph w)\<rparr>"
  by (simp add: Renumber_static_def Renumber_dynamic_def)

section \<open>The edge count of a view\<close>

lemma sum_out_degrees_values:
  "\<forall>n \<in> set ns. degree n = Inr (g n) \<Longrightarrow>
   sum_out_degrees degree ns = Inr (sum_list (map g ns))"
  by (induction ns) simp_all

lemma elem_le_sum_list_map:
  fixes g :: "'a \<Rightarrow> nat"
  shows "x \<in> set xs \<Longrightarrow> g x \<le> sum_list (map g xs)"
  by (induction xs) auto

lemma sum_list_map_le:
  fixes g h :: "'a \<Rightarrow> nat"
  shows "\<forall>x \<in> set xs. g x \<le> h x \<Longrightarrow> sum_list (map g xs) \<le> sum_list (map h xs)"
  by (induction xs) (simp_all add: add_mono)

lemma sum_list_map_less:
  fixes g h :: "'a \<Rightarrow> nat"
  shows "\<forall>x \<in> set xs. g x \<le> h x \<Longrightarrow> \<exists>x \<in> set xs. g x < h x \<Longrightarrow>
    sum_list (map g xs) < sum_list (map h xs)"
proof (induction xs)
  case Nil
  then show ?case by simp
next
  case (Cons x xs)
  from Cons.prems(1) have le: "sum_list (map g xs) \<le> sum_list (map h xs)"
    by (simp add: sum_list_map_le)
  show ?case
  proof (cases "g x < h x")
    case True
    with le show ?thesis by simp
  next
    case False
    with Cons.prems have "\<forall>x \<in> set xs. g x \<le> h x" "\<exists>x \<in> set xs. g x < h x" "g x \<le> h x"
      by auto
    with Cons.IH show ?thesis by simp
  qed
qed

lemma GetOutDegree_static_valid:
  assumes val: "valid_static v" and cnt: "edges_counted (graph v)"
    and small: "Graph_GetNumberOfEdges (graph v) < 4294967296"
    and n: "n < Graph_GetNumberOfNodes (graph v)"
  shows "GetOutDegree_static v n =
    Inr (length (filter (\<lambda>e. edge_filter v ! e) (Graph_GetAdjacentEdgeRange (graph v) n)))"
proof -
  let ?adj = "Graph_GetAdjacentEdgeRange (graph v)"
  from n have "n \<in> set [0..<Graph_GetNumberOfNodes (graph v)]" by simp
  then have "length (?adj n) \<le>
      sum_list (map (\<lambda>n. length (?adj n)) [0..<Graph_GetNumberOfNodes (graph v)])"
    by (rule elem_le_sum_list_map)
  with cnt have "length (?adj n) \<le> Graph_GetNumberOfEdges (graph v)"
    by (simp add: edges_counted_def)
  moreover have "length (filter (\<lambda>e. edge_filter v ! e) (?adj n)) \<le> length (?adj n)"
    by simp
  ultimately have "length (filter (\<lambda>e. edge_filter v ! e) (?adj n)) < 4294967296"
    using small by linarith
  then have "to_unsigned (length (filter (\<lambda>e. edge_filter v ! e) (?adj n))) =
      length (filter (\<lambda>e. edge_filter v ! e) (?adj n))"
    by (simp add: to_unsigned_def)
  with count_if_in_range [OF valid_static_range [OF val n]] show ?thesis
    by (simp add: GetOutDegree_static_def)
qed

text \<open>
  Claim C10. \<open>GetNumberOfEdges()\<close> of a view, static or dynamic, is the edge count of the
  store, masked edges included. Where that count is the number of entries of the
  adjacency ranges, the sum of \<open>GetOutDegree(n)\<close> over all nodes never exceeds it and is
  strictly smaller as soon as one edge is masked. \<open>GetOutDegree\<close> is a member of the static
  view only.
\<close>

theorem GetNumberOfEdges_counts_masked_edges:
  "GetNumberOfEdges_static v = Graph_GetNumberOfEdges (graph v) \<and>
   GetNumberOfEdges_dynamic w = Graph_GetNumberOfEdges (dgraph w) \<and>
   (valid_static v \<and> edges_counted (graph v) \<and>
    Graph_GetNumberOfEdges (graph v) < 4294967296 \<longrightarrow>
      (\<exists>s. sum_out_degrees (GetOutDegree_static v) [0..<Graph_GetNumberOfNodes (graph v)] =
              Inr s \<and>
           s \<le> GetNumberOfEdges_static v \<and>
           ((\<exists>n < Graph_GetNumberOfNodes (graph v).
               \<exists>e \<in> set (Graph_GetAdjacentEdgeRange (graph v) n). \<not> edge_filter v ! e) \<longrightarrow>
            s < GetNumberOfEdges_static v)))"
proof -
  let ?N = "Graph_GetNumberOfNodes (graph v)"
  let ?adj = "Graph_GetAdjacentEdgeRange (graph v)"
  let ?deg = "\<lambda>n. length (filter (\<lambda>e. edge_filter v ! e) (?adj n))"
  have static: "\<exists>s. sum_out_degrees (GetOutDegree_static v) [0..<?N] = Inr s \<and>
      s \<le> GetNumberOfEdges_static v \<and>
      ((\<exists>n < ?N. \<exists>e \<in> set (?adj n). \<not> edge_filter v ! e) \<longrightarrow>
         s < GetNumberOfEdges_static v)"
    if val: "valid_static v" and cnt: "edges_counted (graph v)"
      and small: "Graph_GetNumberOfEdges (graph v) < 4294967296"
  proof -
    have "\<forall>n \<in> set [0..<?N]. GetOutDegree_static v n = Inr (?deg n)"
      using GetOutDegree_static_valid [OF val cnt small] by simp
    then have s: "sum_out_degrees (GetOutDegree_static v) [0..<?N] =
        Inr (sum_list (map ?deg [0..<?N]))"
      by (rule sum_out_degrees_values)
    have total: "sum_list (map (\<lambda>n. length (?adj n)) [0..<?N]) = GetNumberOfEdges_static v"
      using cnt by (simp add: edges_counted_def GetNumberOfEdges_static_def)
    have le: "\<forall>n \<in> set [0..<?N]. ?deg n \<le> length (?adj n)" by simp
    from sum_list_map_le [OF le] total
    have bound: "sum_list (map ?deg [0..<?N]) \<le> GetNumberOfEdges_static v" by simp
    have strict: "sum_list (map ?deg [0..<?N]) < GetNumberOfEdges_static v"
      if "\<exists>n < ?N. \<exists>e \<in> set (?adj n). \<not> edge_filter v ! e"
    proof -
      from that obtain n e where n: "n < ?N" and e: "e \<in> set (?adj n)" "\<not> edge_filter v ! e"
        by blast
      from e have "?deg n < length (?adj n)" by (rule length_filter_less)
      with n have "\<exists>n \<in> set [0..<?N]. ?deg n < length (?adj n)" by auto
      from sum_list_map_less [OF le this] total show ?thesis by simp
    qed
    from s bound strict show ?thesis by blast
  qed
  from static show ?thesis
    by (simp add: GetNumberOfEdges_static_def GetNumberOfEdges_dynamic_def)
qed

theorem GetNumberOfEdges_counts_masked_edges_witness:
  "valid_static example_view \<and> edges_counted (graph example_view) \<and>
   Graph_GetNumberOfEdges (graph example_view) < 4294967296 \<and>
   (1::nat) < Graph_GetNumberOfNodes (graph example_view) \<and>
   (2::nat) \<in> set (Graph_GetAdjacentEdgeRange (graph example_view) 1) \<and>
   \<not> edge_filter example_view ! 2 \<and>
   GetNumberOfEdges_static example_view = 4 \<and>
   (\<exists>s. sum_out_degrees (GetOutDegree_static example_view)
           [0..<Graph_GetNumberOfNodes (graph example_view)] = Inr s \<and>
        s < GetNumberOfEdges_static example_view) \<and>
   GetNumberOfEdges_dynamic example_dynamic_view = 4"
proof -
  have val: "valid_static example_view"
    by (simp add: valid_static_def example_view_def example_graph_def All_less_Suc
        numeral_3_eq_3)
  have cnt: "edges_counted (graph example_view)"
    by (simp add: edges_counted_def example_view_def example_graph_def numeral_3_eq_3)
  have small: "Graph_GetNumberOfEdges (graph example_view) < 4294967296"
    "Graph_GetNumberOfEdges (graph example_view) = 4"
    by (simp_all add: example_view_def example_graph_def)
  have masked: "(1::nat) < Graph_GetNumberOfNodes (graph example_view)"
    "(2::nat) \<in> set (Graph_GetAdjacentEdgeRange (graph example_view) 1)"
    "\<not> edge_filter example_view ! 2"
    by (simp_all add: example_view_def example_graph_def)
  have dcnt: "Graph_GetNumberOfEdges (dgraph example_dynamic_view) = 4"
    by (simp add: example_dynamic_view_def FilteredGraphImpl_dynamic_def
        Transform_def set_node_filter_def set_edge_filter_def example_filter_graph_def
        numeral_3_eq_3)
  from masked have ex: "\<exists>n < Graph_GetNumberOfNodes (graph example_view).
      \<exists>e \<in> set (Graph_GetAdjacentEdgeRange (graph example_view) n).
        \<not> edge_filter example_view ! e"
    by blast
  from GetNumberOfEdges_counts_masked_edges [of example_view example_dynamic_view]
    val cnt small(1) ex
  have concl: "\<exists>s. sum_out_degrees (GetOutDegree_static example_view)
           [0..<Graph_GetNumberOfNodes (graph example_view)] = Inr s \<and>
        s < GetNumberOfEdges_static example_view"
    "GetNumberOfEdges_dynamic example_dynamic_view =
       Graph_GetNumberOfEdges (dgraph example_dynamic_view)"
    by auto
  from val cnt small masked dcnt concl show ?thesis
    by (simp add: GetNumberOfEdges_static_def)
qed

end
